theory Spec2Isabelle
  imports Complex_Main
begin

section \<open>Numbers and strings of the page scripts\<close>

text \<open>
  The numbers of the page scripts are IEEE 754 binary64 values. A finite one is modelled
  by the rational number it denotes (the sign of a zero is not kept); where an
  operation can yield \<open>Infinity\<close> or \<open>NaN\<close>, its result is an option and \<open>None\<close> stands
  for the non-finite value. \<open>Math.round\<close> returns the nearest integer, a tie going
  towards plus infinity: \<open>Math.round(64.5) = 65\<close>, \<open>Math.round(-0.5) = 0\<close>. Its result is
  exact: from \<open>2^52\<close> on every binary64 value is an integer.
\<close>

definition Math_round :: "rat \<Rightarrow> int" where
  "Math_round x = \<lfloor>x + 1 / 2\<rfloor>"

text \<open>
  The operators \<open>/\<close> and \<open>*\<close> return the exact quotient or product rounded to the
  nearest binary64 value, a tie going to the value whose significand is even.
  \<open>bit_length n\<close> is the number of binary digits of a positive integer, \<open>pow2 k\<close> is
  \<open>2^k\<close>, and \<open>ilog2 x\<close> is the exponent \<open>e\<close> of a positive \<open>x\<close>:
  \<open>2^e \<le> x < 2^(e + 1)\<close>.
\<close>

function bit_length :: "int \<Rightarrow> int" where
  "bit_length n = (if n \<le> 0 then 0 else 1 + bit_length (n div 2))"
  by pat_completeness auto
termination
  by (relation "measure nat") auto

declare bit_length.simps [simp del]

definition pow2 :: "int \<Rightarrow> rat" where
  "pow2 k = (if 0 \<le> k then 2 ^ nat k else 1 / 2 ^ nat (- k))"

definition ilog2 :: "rat \<Rightarrow> int" where
  "ilog2 x =
     (if 1 \<le> x then bit_length \<lfloor>x\<rfloor> - 1
      else
        (let k = bit_length \<lfloor>1 / x\<rfloor> - 1
         in if x * pow2 k = 1 then - k else - k - 1))"

text \<open>The nearest integer, a tie going to the even one.\<close>

definition round_ties_even :: "rat \<Rightarrow> int" where
  "round_ties_even x =
     (let f = \<lfloor>x\<rfloor>; r = x - of_int f
      in if r < 1 / 2 then f
         else if 1 / 2 < r then f + 1
         else if even f then f
         else f + 1)"

text \<open>
  \<open>fl_pos x\<close> is the binary64 value nearest to a positive rational \<open>x\<close>. The values with
  exponent \<open>e\<close> are the multiples of \<open>2^(e - 52)\<close>; the least exponent is \<open>-1022\<close>, so
  that below \<open>2^(-1022)\<close> the values are the multiples of \<open>2^(-1074)\<close> (the subnormal
  numbers, and zero). A rounded value that reaches \<open>2^1024\<close> is \<open>Infinity\<close>. \<open>fl\<close>
  extends this to zero and to the negative numbers.
\<close>

definition fl_pos :: "rat \<Rightarrow> rat option" where
  "fl_pos x =
     (let e = max (ilog2 x) (- 1022);
          q = pow2 (e - 52);
          y = of_int (round_ties_even (x / q)) * q
      in if pow2 1024 \<le> y then None else Some y)"

definition fl :: "rat \<Rightarrow> rat option" where
  "fl x =
     (if x = 0 then Some 0
      else if 0 < x then fl_pos x
      else map_option uminus (fl_pos (- x)))"

text \<open>
  \<open>a / b\<close> and \<open>a * b\<close> for finite \<open>a\<close> and \<open>b\<close>. A division never throws: a zero
  divisor gives \<open>Infinity\<close> or \<open>NaN\<close>.
\<close>

definition fdiv :: "rat \<Rightarrow> rat \<Rightarrow> rat option" where
  "fdiv a b = (if b = 0 then None else fl (a / b))"

definition fmul :: "rat \<Rightarrow> rat \<Rightarrow> rat option" where
  "fmul a b = fl (a * b)"

text \<open>
  A string of the scripts is a sequence of UTF-16 code units. A transcript, whose
  characters the page inspects, is modelled as the list of its code units, each a
  natural number (below 65536 in a string of the page); \<open>utf16_of\<close> gives the code
  units of a literal made of 8-bit characters. The other strings (questions, messages,
  identifiers) are lists of 8-bit characters.
\<close>

type_synonym utf16 = "nat list"

definition utf16_of :: "string \<Rightarrow> utf16" where
  "utf16_of str = map of_char str"

text \<open>
  The members of the regular-expression class \<open>\s\<close>, which are the \<open>WhiteSpace\<close> and
  \<open>LineTerminator\<close> code points of ECMAScript: tab, line feed, vertical tab, form feed,
  carriage return, space, no-break space (U+00A0), U+1680, U+2000 to U+200A, the line
  and paragraph separators (U+2028, U+2029), U+202F, U+205F, U+3000 and the byte order
  mark (U+FEFF). All of them are single code units, and the expression \<open>/\s+/\<close> has no
  \<open>u\<close> flag, so that it is matched code unit by code unit.
\<close>

definition is_ws :: "nat \<Rightarrow> bool" where
  "is_ws c =
     (c \<in> {9, 10, 11, 12, 13, 32, 160, 5760, 8232, 8233, 8239, 8287, 12288, 65279}
      \<or> (8192 \<le> c \<and> c \<le> 8202))"

text \<open>
  \<open>str.split(/\s+/)\<close>: the pieces between the maximal runs of whitespace. A run at the
  start or at the end of the string leaves an empty piece there, and the empty string
  splits into one empty piece. \<open>cur\<close> is the piece being read, \<open>in_sep\<close> says that the
  previous code unit belonged to a separator.
\<close>

fun split_from :: "utf16 \<Rightarrow> bool \<Rightarrow> utf16 \<Rightarrow> utf16 list" where
  "split_from cur in_sep [] = [cur]"
| "split_from cur in_sep (c # cs) =
     (if is_ws c
      then (if in_sep then split_from cur True cs else cur # split_from [] True cs)
      else split_from (cur @ [c]) False cs)"

definition split_ws :: "utf16 \<Rightarrow> utf16 list" where
  "split_ws str = split_from [] False str"

text \<open>
  \<open>result.transcription.split(/\s+/).filter(w => w.length > 0).length\<close>
  (mock-test.js line 532, unnamed/part_006 line 275).
\<close>

definition words :: "utf16 \<Rightarrow> nat" where
  "words transcription = length (filter (\<lambda>w. length w > 0) (split_ws transcription))"

text \<open>
  \<open>result.duration > 0 ? Math.round((words / result.duration) * 60) : 0\<close>
  (mock-test.js line 533, unnamed/part_006 line 276), for the word count \<open>w\<close> and a
  finite duration. The quotient and the product are each rounded to a binary64 value
  before \<open>Math.round\<close> is applied. \<open>None\<close> is \<open>Infinity\<close>, which a duration close to
  zero yields.
\<close>

definition wpm :: "nat \<Rightarrow> rat \<Rightarrow> int option" where
  "wpm w duration =
     (if duration > 0
      then (case fdiv (of_nat w) duration of
              None \<Rightarrow> None
            | Some q \<Rightarrow> map_option Math_round (fmul q 60))
      else Some 0)"

text \<open>
  The number of whitespace-separated tokens, counted directly: a token starts at every
  code unit that is not whitespace and is the first of the string or follows a
  whitespace code unit. \<open>prev_ws\<close> says that the previous code unit was whitespace (or
  that the string starts here).
\<close>

fun token_starts :: "bool \<Rightarrow> utf16 \<Rightarrow> nat" where
  "token_starts prev_ws [] = 0"
| "token_starts prev_ws (c # cs) =
     (if is_ws c then token_starts True cs
      else (if prev_ws then 1 else 0) + token_starts False cs)"

subsection \<open>The CEFR badge\<close>

datatype cefr = C1 | B2 | B1 | Below_B1

text \<open>
  \<open>cefrBadge(score)\<close> (mock-test.js lines 608-617, and the same text in the practice
  and progress pages). A \<open>null\<close> or \<open>undefined\<close> score is \<open>None\<close>; the empty string
  returned for it is \<open>None\<close>, and the \<open>span\<close> is given by its level.
\<close>

definition cefrBadge :: "rat option \<Rightarrow> cefr option" where
  "cefrBadge score =
     (case score of
        None \<Rightarrow> None
      | Some sc \<Rightarrow>
          (let score = Math_round sc in
           if score \<ge> 65 then Some C1
           else if score \<ge> 51 then Some B2
           else if score \<ge> 38 then Some B1
           else Some Below_B1))"

section \<open>The mock test page and the recorder\<close>

text \<open>
  \<open>MockTestPage\<close> (webapp/js/pages/mock-test.js) and \<open>Recorder\<close> (unnamed/part_002
  lines 24-131, the version with \<open>maxDuration\<close>) are two singleton objects; the page
  renders into one container element shared by all pages. The state
  below holds the fields of both objects, the browser objects they create (addressed by
  their index in a store, so that an object that is no longer referenced still exists),
  what the container shows, and the network calls in flight.
\<close>

datatype phase = idle | recording | processing

datatype side = For | Against

text \<open>
  A part of \<open>test.parts\<close>: \<open>questions\<close> lists the \<open>question\<close> text of each entry, \<open>topic\<close>
  is the debate topic. A field that the object lacks is \<open>None\<close>. Images and debate
  points are display only and left out.
\<close>

record part_data =
  questions :: "string list option"
  topic :: "string option"

type_synonym test = "string \<rightharpoonup> part_data"

text \<open>An entry of \<open>responses\<close> (mock-test.js lines 524-529).\<close>

record response =
  part :: "string option"
  question :: "string option"
  transcription :: utf16
  duration :: rat

text \<open>
  A \<open>MediaRecorder\<close>: its \<open>state\<close> is \<open>'recording'\<close> in \<open>MR_recording\<close> and
  \<open>'inactive'\<close> in the other two; in \<open>MR_stopping\<close>, \<open>stop()\<close> has been called and the
  \<open>stop\<close> event is queued but not yet delivered.
\<close>

datatype mr = MR_inactive | MR_recording | MR_stopping

text \<open>
  A \<open>setInterval\<close> handle: cleared, the tick closure of \<open>Recorder.start\<close>, or the closure
  of \<open>showNextWithAutoAdvance\<close> with its \<open>countdown\<close> variable.
\<close>

datatype interval = Cleared | Recorder_tick | Auto_advance int

text \<open>
  The text of \<open>#record-hint\<close>: \<open>Tap to start recording\<close>, \<open>Recording... (min Ns)\<close>,
  \<open>Tap to stop\<close>, \<open>Wait Ns more...\<close>, \<open>Processing...\<close>, \<open>Microphone access denied\<close>,
  \<open>Tap to try again\<close>.
\<close>

datatype hint = Tap_to_start | Recording_min int | Tap_to_stop | Wait_more int
  | Processing | Mic_denied | Try_again

text \<open>
  \<open>#transcription-area\<close>: empty, the spinner, the transcript card with words, WPM and
  duration, the \<open>Response saved\<close> card, the \<open>Failed: ...\<close> card.
\<close>

datatype tarea = T_empty | T_loading | T_transcript utf16 nat "int option" rat
  | T_saved | T_failed string

text \<open>\<open>#action-area\<close>: empty, the \<open>Next\<close> button, the \<open>See Results\<close> button.\<close>

datatype aarea = A_empty | A_next | A_see_results

text \<open>
  What the container shows. \<open>Home\<close> is the home page; \<open>Loading\<close>, \<open>Upgrade_prompt\<close> and
  \<open>Error_screen\<close> come from \<open>render\<close>; \<open>Question_screen\<close> carries the question text
  shown; \<open>Results\<close> carries the rounded overall score and its badge.
\<close>

datatype screen = Home | Loading | Upgrade_prompt | Error_screen string | Intro
  | Question_screen string | Debate_selection | Debate_recording | Part_transition
  | Results_loading | Results int "cefr option" | Results_error string

text \<open>
  A call of \<open>handleRecording\<close> suspended at \<open>await API.postForm(...)\<close>: the constants
  \<open>part\<close>, \<open>questionText\<close> and \<open>isDebate\<close> it computed before, and the generation of the
  container whose elements it holds.
\<close>

record pending_call =
  p_part :: "string option"
  p_questionText :: "string option"
  p_isDebate :: bool
  p_gen :: nat

record page =
  \<comment> \<open>MockTestPage\<close>
  sessionId :: "string option"
  test :: "test option"
  currentPartIndex :: nat
  currentIndex :: nat
  responses :: "response list"
  state :: phase
  showTranscription :: bool
  selectedVoice :: "string option"
  mood :: string
  recordingStartTime :: "int option"
  autoAdvanceTimer :: "nat option"
  currentAudio :: "nat option"
  debateSide :: "side option"
  \<comment> \<open>Recorder\<close>
  R_mediaRecorder :: "nat option"
  R_stream :: "nat option"
  R_startTime :: "int option"
  R_timerInterval :: "nat option"
  R_onTick :: "nat option"
  R_onStop :: bool
  R_maxDuration :: "nat option"
  R_mimeType :: string
  \<comment> \<open>browser objects: MediaRecorders, media streams (live or not), intervals, Audio
      elements (playing or not)\<close>
  recorders :: "mr list"
  streams :: "bool list"
  intervals :: "interval list"
  audios :: "bool list"
  \<comment> \<open>the container: its generation grows at every \<open>innerHTML\<close> assignment\<close>
  gen :: nat
  screen :: screen
  hint :: hint
  btn_recording :: bool
  btn_disabled :: bool
  transcriptionArea :: tarea
  actionArea :: aarea
  \<comment> \<open>network: suspended \<open>handleRecording\<close> calls, settled \<open>respond\<close> calls with their
      outcome, texts of \<open>/api/tts\<close> fetches in flight, \<open>complete\<close> calls in flight\<close>
  pending :: "pending_call list"
  respond_log :: "(pending_call \<times> (string + utf16 \<times> rat)) list"
  tts_inflight :: "string option list"
  complete_inflight :: nat

definition parts :: "string list" where
  "parts = [''1.1'', ''1.2'', ''2'', ''3'']"

text \<open>The getters \<open>currentPart\<close>, \<open>currentPartData\<close>, \<open>currentQuestions\<close> (lines 20-30).\<close>

definition currentPart :: "page \<Rightarrow> string option" where
  "currentPart s =
     (if currentPartIndex s < length parts then Some (parts ! currentPartIndex s) else None)"

definition currentPartData :: "page \<Rightarrow> part_data" where
  "currentPartData s =
     (case test s of
        None \<Rightarrow> \<lparr>questions = None, topic = None\<rparr>
      | Some t \<Rightarrow>
          (case currentPart s of
             None \<Rightarrow> \<lparr>questions = None, topic = None\<rparr>
           | Some p \<Rightarrow>
               (case t p of
                  None \<Rightarrow> \<lparr>questions = None, topic = None\<rparr>
                | Some pd \<Rightarrow> pd)))"

definition currentQuestions :: "page \<Rightarrow> string list" where
  "currentQuestions s =
     (case questions (currentPartData s) of None \<Rightarrow> [] | Some qs \<Rightarrow> qs)"

text \<open>
  \<open>container.innerHTML = ...\<close>: a new generation of elements; the recorder area starts
  with the hint \<open>Tap to start recording\<close> and empty transcription and action areas.
\<close>

definition set_screen :: "screen \<Rightarrow> page \<Rightarrow> page" where
  "set_screen sc s =
     s\<lparr>gen := gen s + 1, screen := sc, hint := Tap_to_start, btn_recording := False,
       btn_disabled := False, transcriptionArea := T_empty, actionArea := A_empty\<rparr>"

text \<open>
  A write to elements obtained in generation \<open>g\<close>: it shows only while these elements
  are still in the container.
\<close>

definition dom_write :: "nat \<Rightarrow> (page \<Rightarrow> page) \<Rightarrow> page \<Rightarrow> page" where
  "dom_write g f s = (if gen s = g then f s else s)"

text \<open>
  \<open>App.navigate('home')\<close>: the home page renders into the container. This is the
  \<open>HomePage.render\<close> that writes its markup at once (unnamed/part_005). The revision of
  unnamed/part_004 awaits \<open>/api/session-info\<close> first and writes the container when that
  call has settled, so that the screen it leaves stays in the container until then;
  that revision is not modelled.
\<close>

definition navigate_home :: "page \<Rightarrow> page" where
  "navigate_home s = set_screen Home s"

subsection \<open>Recorder\<close>

definition mimeTypes :: "string list" where
  "mimeTypes = [''audio/webm;codecs=opus'', ''audio/webm'', ''audio/ogg;codecs=opus'',
     ''audio/mp4'']"

text \<open>
  \<open>Recorder.start(onTick, onStop, maxDuration)\<close>. \<open>tick_gen\<close> is the generation of the
  elements the \<open>onTick\<close> closure writes to; \<open>now\<close> is \<open>Date.now()\<close>; \<open>mic\<close> says whether
  \<open>getUserMedia\<close> resolves (otherwise it rejects and the \<open>catch\<close> returns \<open>false\<close>);
  \<open>supported\<close> lists the types \<open>MediaRecorder.isTypeSupported\<close> accepts. The audio
  chunks are not modelled, and the \<open>MediaRecorder\<close> constructor is taken not to throw.
  There is no test of a recording in progress: the fields are overwritten.
\<close>

definition Recorder_start ::
  "nat \<Rightarrow> nat option \<Rightarrow> int \<Rightarrow> bool \<Rightarrow> string list \<Rightarrow> page \<Rightarrow> bool \<times> page" where
  "Recorder_start tick_gen maxDuration now mic supported s =
     (let s1 = s\<lparr>R_onTick := Some tick_gen, R_onStop := True,
                 R_maxDuration := (if maxDuration = Some 0 then None else maxDuration)\<rparr>
      in if \<not> mic then (False, s1)
         else
           (True,
            s1\<lparr>streams := streams s1 @ [True],
               R_stream := Some (length (streams s1)),
               R_mimeType :=
                 (case find (\<lambda>ty. ty \<in> set supported) mimeTypes of
                    None \<Rightarrow> ''audio/webm'' | Some ty \<Rightarrow> ty),
               recorders := recorders s1 @ [MR_recording],
               R_mediaRecorder := Some (length (recorders s1)),
               R_startTime := Some now,
               intervals := intervals s1 @ [Recorder_tick],
               R_timerInterval := Some (length (intervals s1))\<rparr>))"

definition isRecording :: "page \<Rightarrow> bool" where
  "isRecording s =
     (case R_mediaRecorder s of
        None \<Rightarrow> False
      | Some m \<Rightarrow> m < length (recorders s) \<and> recorders s ! m = MR_recording)"

definition Recorder_stop :: "page \<Rightarrow> page" where
  "Recorder_stop s =
     (case R_mediaRecorder s of
        None \<Rightarrow> s
      | Some m \<Rightarrow>
          (if m < length (recorders s) \<and> recorders s ! m = MR_recording
           then s\<lparr>recorders := (recorders s)[m := MR_stopping]\<rparr>
           else s))"

definition Recorder_cleanup :: "page \<Rightarrow> page" where
  "Recorder_cleanup s =
     (let s1 = (case R_timerInterval s of
                  None \<Rightarrow> s
                | Some t \<Rightarrow> s\<lparr>intervals := (intervals s)[t := Cleared],
                              R_timerInterval := None\<rparr>)
      in case R_stream s1 of
           None \<Rightarrow> s1
         | Some m \<Rightarrow> s1\<lparr>streams := (streams s1)[m := False], R_stream := None\<rparr>)"

subsection \<open>MockTestPage\<close>

text \<open>\<open>clearAutoAdvance\<close> (lines 601-606).\<close>

definition clearAutoAdvance :: "page \<Rightarrow> page" where
  "clearAutoAdvance s =
     (case autoAdvanceTimer s of
        None \<Rightarrow> s
      | Some t \<Rightarrow> s\<lparr>intervals := (intervals s)[t := Cleared], autoAdvanceTimer := None\<rparr>)"

text \<open>
  \<open>if (this.currentAudio) { this.currentAudio.pause(); this.currentAudio = null; }\<close>,
  as written in \<open>playQuestion\<close> and in the record button's handler.
\<close>

definition pause_currentAudio :: "page \<Rightarrow> page" where
  "pause_currentAudio s =
     (case currentAudio s of
        None \<Rightarrow> s
      | Some a \<Rightarrow> s\<lparr>audios := (audios s)[a := False], currentAudio := None\<rparr>)"

text \<open>
  \<open>playQuestion(text)\<close> up to its \<open>await fetch('/api/tts', ...)\<close> (lines 419-436), and
  its continuation when the fetch settles (lines 438-446): \<open>ok\<close> says that the response
  arrived with \<open>resp.ok\<close>; then a new \<open>Audio\<close> plays and becomes \<open>currentAudio\<close>.
\<close>

definition playQuestion :: "string option \<Rightarrow> page \<Rightarrow> page" where
  "playQuestion text s =
     (let s1 = pause_currentAudio s
      in if selectedVoice s1 = None then s1
         else s1\<lparr>tts_inflight := tts_inflight s1 @ [text]\<rparr>)"

definition playQuestion_settles :: "bool \<Rightarrow> page \<Rightarrow> page" where
  "playQuestion_settles ok s =
     (case tts_inflight s of
        [] \<Rightarrow> s
      | text # rest \<Rightarrow>
          (let s1 = s\<lparr>tts_inflight := rest\<rparr>
           in if \<not> ok then s1
              else s1\<lparr>audios := audios s1 @ [True],
                      currentAudio := Some (length (audios s1))\<rparr>))"

definition renderIntro :: "page \<Rightarrow> page" where
  "renderIntro s = set_screen Intro s"

text \<open>The handlers of the intro screen (lines 176-205).\<close>

definition moodBtnClick :: "string \<Rightarrow> page \<Rightarrow> page" where
  "moodBtnClick m s = s\<lparr>mood := m\<rparr>"

definition transcriptionToggleClick :: "page \<Rightarrow> page" where
  "transcriptionToggleClick s = s\<lparr>showTranscription := (\<not> showTranscription s)\<rparr>"

definition voiceCardClick :: "string \<Rightarrow> page \<Rightarrow> page" where
  "voiceCardClick voice s =
     (if selectedVoice s = Some voice then s\<lparr>selectedVoice := None\<rparr>
      else s\<lparr>selectedVoice := Some voice\<rparr>)"

definition renderDebateSelection :: "page \<Rightarrow> page" where
  "renderDebateSelection s = set_screen Debate_selection s"

definition renderDebateRecording :: "page \<Rightarrow> page" where
  "renderDebateRecording s =
     playQuestion (topic (currentPartData s)) (set_screen Debate_recording s)"

text \<open>The \<open>For\<close> and \<open>Against\<close> buttons (lines 333-340).\<close>

definition sideBtnClick :: "side \<Rightarrow> page \<Rightarrow> page" where
  "sideBtnClick sd s = renderDebateRecording (s\<lparr>debateSide := Some sd\<rparr>)"

definition renderPartTransition :: "page \<Rightarrow> page" where
  "renderPartTransition s = set_screen Part_transition (clearAutoAdvance s)"

text \<open>
  \<open>showResults\<close> up to its \<open>await API.post(.../complete)\<close> (lines 653-658), and its
  continuation (lines 659-740) for the outcome of the call: an error message, or the
  overall score of the result (\<open>None\<close> when \<open>scores.overall\<close> is missing).
\<close>

definition showResults :: "page \<Rightarrow> page" where
  "showResults s =
     (let s1 = set_screen Results_loading (clearAutoAdvance s)
      in s1\<lparr>complete_inflight := complete_inflight s1 + 1\<rparr>)"

definition showResults_settles :: "string + rat option \<Rightarrow> page \<Rightarrow> page" where
  "showResults_settles result s =
     (if complete_inflight s = 0 then s
      else
        (let s1 = s\<lparr>complete_inflight := complete_inflight s - 1\<rparr>
         in case result of
              Inl msg \<Rightarrow> set_screen (Results_error msg) s1
            | Inr overall \<Rightarrow>
                set_screen
                  (Results (Math_round (case overall of None \<Rightarrow> 0 | Some x \<Rightarrow> x))
                     (cefrBadge overall)) s1))"

text \<open>\<open>renderQuestion\<close> (lines 212-297).\<close>

definition renderQuestion :: "page \<Rightarrow> page" where
  "renderQuestion s0 =
     (let s = clearAutoAdvance s0;
          part = currentPart s;
          questions = currentQuestions s
      in if part = Some ''3''
         then (if debateSide s = None then renderDebateSelection s
               else renderDebateRecording s)
         else if currentIndex s \<ge> length questions
         then (if currentPartIndex s < length parts - 1
               then renderPartTransition
                      (s\<lparr>currentPartIndex := currentPartIndex s + 1, currentIndex := 0,
                         debateSide := None\<rparr>)
               else showResults s)
         else playQuestion (Some (questions ! currentIndex s))
                (set_screen (Question_screen (questions ! currentIndex s)) s))"

text \<open>\<open>str.includes(sub)\<close>.\<close>

fun starts_with :: "string \<Rightarrow> string \<Rightarrow> bool" where
  "starts_with str [] = True"
| "starts_with [] (c # cs) = False"
| "starts_with (x # xs) (c # cs) = (x = c \<and> starts_with xs cs)"

fun str_includes :: "string \<Rightarrow> string \<Rightarrow> bool" where
  "str_includes [] sub = (sub = [])"
| "str_includes (x # xs) sub = (starts_with (x # xs) sub \<or> str_includes xs sub)"

text \<open>
  \<open>render\<close> (lines 32-83), with the outcome of \<open>API.post('/api/sessions/start', ...)\<close>:
  the message of the error thrown, or \<open>session_id\<close> and \<open>test\<close> of the result.
\<close>

definition render :: "string + string \<times> test \<Rightarrow> page \<Rightarrow> page" where
  "render result s =
     (let s1 = clearAutoAdvance
                 (s\<lparr>currentPartIndex := 0, currentIndex := 0, responses := [],
                    state := idle, showTranscription := True, selectedVoice := None,
                    mood := ''normal'', recordingStartTime := None, debateSide := None,
                    test := None\<rparr>);
          s2 = set_screen Loading s1
      in case result of
           Inr (session_id, t) \<Rightarrow> renderIntro (s2\<lparr>sessionId := Some session_id, test := Some t\<rparr>)
         | Inl message \<Rightarrow>
             (let isLimit = str_includes message ''Daily mock limit''
              in set_screen (if isLimit then Upgrade_prompt else Error_screen message) s2))"

text \<open>
  The handler of \<open>#record-btn\<close> (lines 454-494), run at clock value \<open>now\<close> (milliseconds).
  \<open>elapsed < 5\<close> for \<open>elapsed = (Date.now() - this.recordingStartTime) / 1000\<close> is
  \<open>now - start < 5000\<close>; a \<open>null\<close> start time counts as 0 in the subtraction.
\<close>

definition recordBtnClick :: "int \<Rightarrow> bool \<Rightarrow> string list \<Rightarrow> page \<Rightarrow> page" where
  "recordBtnClick now mic supported s =
     (if state s = recording
      then
        (let elapsed_ms = now - (case recordingStartTime s of None \<Rightarrow> 0 | Some t \<Rightarrow> t)
         in if elapsed_ms < 5000
            then s\<lparr>hint := Wait_more \<lceil>(5 :: rat) - of_int elapsed_ms / 1000\<rceil>\<rparr>
            else (Recorder_stop s)\<lparr>state := processing, btn_recording := False,
                                    btn_disabled := True, hint := Processing\<rparr>)
      else if state s = processing then s
      else
        (case Recorder_start (gen s) None now mic supported s of
           (started, s1) \<Rightarrow>
             (if started
              then (pause_currentAudio s1)\<lparr>state := recording,
                                            recordingStartTime := Some now,
                                            btn_recording := True,
                                            hint := Recording_min 5\<rparr>
              else s1\<lparr>hint := Mic_denied\<rparr>)))"

text \<open>The \<open>catch\<close> block of \<open>handleRecording\<close> (lines 562-569).\<close>

definition handleRecording_catch :: "nat \<Rightarrow> string \<Rightarrow> page \<Rightarrow> page" where
  "handleRecording_catch g message s =
     dom_write g
       (\<lambda>s. s\<lparr>transcriptionArea := T_failed message, btn_disabled := False,
              hint := Try_again\<rparr>)
       (s\<lparr>state := idle\<rparr>)"

text \<open>
  \<open>handleRecording\<close> up to \<open>await API.postForm(...)\<close> (lines 497-522). On a screen
  without \<open>#transcription-area\<close> line 505 throws outside the \<open>try\<close> and nothing else
  runs. Inside the \<open>try\<close>, reading \<open>.question\<close> of a missing question throws and the
  \<open>catch\<close> block runs (\<open>''TypeError''\<close> stands for the message of that error); no
  request is sent then.
\<close>

definition has_recorder_area :: "screen \<Rightarrow> bool" where
  "has_recorder_area sc =
     (case sc of Question_screen q \<Rightarrow> True | Debate_recording \<Rightarrow> True | _ \<Rightarrow> False)"

definition handleRecording :: "page \<Rightarrow> page" where
  "handleRecording s =
     (if \<not> has_recorder_area (screen s) then s
      else
        (let part = currentPart s;
             isDebate = (part = Some ''3'');
             s1 = s\<lparr>transcriptionArea := T_loading\<rparr>
         in if \<not> isDebate \<and> currentIndex s \<ge> length (currentQuestions s)
            then handleRecording_catch (gen s) ''TypeError'' s1
            else
              s1\<lparr>pending := pending s1 @
                   [\<lparr>p_part = part,
                     p_questionText =
                       (if isDebate then topic (currentPartData s)
                        else Some (currentQuestions s ! currentIndex s)),
                     p_isDebate = isDebate,
                     p_gen = gen s\<rparr>]\<rparr>))"

text \<open>\<open>showNextWithAutoAdvance\<close> (lines 572-599), for elements of generation \<open>g\<close>.\<close>

definition showNextWithAutoAdvance :: "nat \<Rightarrow> page \<Rightarrow> page" where
  "showNextWithAutoAdvance g s =
     (let s1 = dom_write g (\<lambda>s. s\<lparr>actionArea := A_next\<rparr>) s
      in s1\<lparr>intervals := intervals s1 @ [Auto_advance 5],
            autoAdvanceTimer := Some (length (intervals s1))\<rparr>)"

text \<open>
  The continuation of \<open>handleRecording\<close> when the \<open>i\<close>-th request in flight settles
  (lines 522-569): with the message of the error thrown by \<open>API.postForm\<close>, or with
  \<open>transcription\<close> and \<open>duration\<close> of the result. The settled call is logged with its
  outcome.
\<close>

definition handleRecording_settles :: "nat \<Rightarrow> string + utf16 \<times> rat \<Rightarrow> page \<Rightarrow> page" where
  "handleRecording_settles i result s =
     (if i \<ge> length (pending s) then s
      else
        (let p = pending s ! i;
             s0 = s\<lparr>pending := take i (pending s) @ drop (Suc i) (pending s),
                     respond_log := respond_log s @ [(p, result)]\<rparr>
         in case result of
              Inl message \<Rightarrow> handleRecording_catch (p_gen p) message s0
            | Inr (tr, dur) \<Rightarrow>
                (let s1 = s0\<lparr>responses := responses s0 @
                              [\<lparr>part = p_part p, question = p_questionText p,
                                transcription = tr, duration = dur\<rparr>]\<rparr>;
                     s2 = dom_write (p_gen p)
                            (\<lambda>s. s\<lparr>transcriptionArea :=
                                     (if showTranscription s
                                      then T_transcript tr (words tr) (wpm (words tr) dur) dur
                                      else T_saved)\<rparr>) s1;
                     s3 = (if p_isDebate p
                           then dom_write (p_gen p) (\<lambda>s. s\<lparr>actionArea := A_see_results\<rparr>) s2
                           else showNextWithAutoAdvance (p_gen p) s2)
                 in dom_write (p_gen p) (\<lambda>s. s\<lparr>btn_disabled := False\<rparr>)
                      (s3\<lparr>state := idle\<rparr>))))"

text \<open>\<open>goNext\<close> (lines 582-587).\<close>

definition goNext :: "page \<Rightarrow> page" where
  "goNext s =
     (let s1 = clearAutoAdvance s
      in renderQuestion (s1\<lparr>currentIndex := currentIndex s1 + 1, state := idle\<rparr>))"

text \<open>
  The handlers of \<open>#back-btn\<close> and \<open>#finish-btn\<close> on the question screen (lines 283-293)
  and on the debate recording screen (lines 374-384).
\<close>

definition backBtnClick :: "page \<Rightarrow> page" where
  "backBtnClick s =
     (let s1 = clearAutoAdvance s;
          s2 = (if isRecording s1 then Recorder_stop s1 else s1)
      in navigate_home s2)"

definition finishBtnClick :: "page \<Rightarrow> page" where
  "finishBtnClick s =
     (let s1 = clearAutoAdvance s;
          s2 = (if isRecording s1 then Recorder_stop s1 else s1)
      in navigate_home s2)"

text \<open>
  The \<open>onstop\<close> closure of \<open>Recorder.start\<close> (part_002 lines 73-77), run when the queued
  \<open>stop\<close> event of recorder \<open>m\<close> is delivered; \<open>this.onStop\<close> is the closure that calls
  \<open>handleRecording\<close>.
\<close>

definition mediaRecorder_onstop :: "nat \<Rightarrow> page \<Rightarrow> page" where
  "mediaRecorder_onstop m s =
     (if m < length (recorders s) \<and> recorders s ! m = MR_stopping
      then
        (let s1 = Recorder_cleanup (s\<lparr>recorders := (recorders s)[m := MR_inactive]\<rparr>)
         in if R_onStop s1 then handleRecording s1 else s1)
      else s)"

text \<open>
  An interval fires at clock value \<open>now\<close>. The recorder's closure (part_002 lines 83-91)
  computes \<open>elapsed = Math.floor((Date.now() - this.startTime) / 1000)\<close>, calls
  \<open>onTick\<close> (mock-test.js lines 471-478, the timer text is left out) and stops at
  \<open>maxDuration\<close>. The auto-advance closure (mock-test.js lines 591-598) counts down.
\<close>

definition interval_fires :: "nat \<Rightarrow> int \<Rightarrow> page \<Rightarrow> page" where
  "interval_fires t now s =
     (if t \<ge> length (intervals s) then s
      else
        (case intervals s ! t of
           Cleared \<Rightarrow> s
         | Recorder_tick \<Rightarrow>
             (let elapsed = (now - (case R_startTime s of None \<Rightarrow> 0 | Some t0 \<Rightarrow> t0)) div 1000;
                  s1 = (case R_onTick s of
                          None \<Rightarrow> s
                        | Some g \<Rightarrow>
                            dom_write g
                              (\<lambda>s. s\<lparr>hint := (if elapsed < 5 then Recording_min (5 - elapsed)
                                              else Tap_to_stop)\<rparr>) s)
              in case R_maxDuration s1 of
                   None \<Rightarrow> s1
                 | Some d \<Rightarrow> (if elapsed \<ge> int d then Recorder_stop s1 else s1))
         | Auto_advance countdown \<Rightarrow>
             (let s1 = s\<lparr>intervals := (intervals s)[t := Auto_advance (countdown - 1)]\<rparr>
              in if countdown - 1 \<le> 0 then goNext s1 else s1)))"

subsection \<open>Events\<close>

text \<open>
  What can happen to the page: the user's taps, which need the element they hit to be on
  the screen, and the callbacks of the event loop (an interval firing, a recorder's
  \<open>stop\<close> event, a network call settling). \<open>Open_mock_test\<close> is
  \<open>App.navigate('mock-test')\<close> from the home page with the outcome of the start call.
\<close>

datatype event =
    Open_mock_test "string + string \<times> test"
  | Start_click | Mood_click string | Toggle_click | Voice_click string
  | Record_click int bool "string list"
  | Back_click | Finish_click | Home_click
  | Side_click side | Continue_click | Next_click | See_results_click
  | Interval_fires nat int
  | Stop_event nat
  | Respond_settles nat "string + utf16 \<times> rat"
  | Tts_settles bool
  | Complete_settles "string + rat option"

fun step :: "event \<Rightarrow> page \<Rightarrow> page" where
  "step (Open_mock_test result) s = (if screen s = Home then render result s else s)"
| "step Start_click s = (if screen s = Intro then renderQuestion s else s)"
| "step (Mood_click m) s = (if screen s = Intro then moodBtnClick m s else s)"
| "step Toggle_click s = (if screen s = Intro then transcriptionToggleClick s else s)"
| "step (Voice_click v) s = (if screen s = Intro then voiceCardClick v s else s)"
| "step (Record_click now mic supported) s =
     (if has_recorder_area (screen s) then recordBtnClick now mic supported s else s)"
| "step Back_click s =
     (case screen s of
        Home \<Rightarrow> s | Loading \<Rightarrow> s | Results_loading \<Rightarrow> s
      | Question_screen q \<Rightarrow> backBtnClick s
      | Debate_recording \<Rightarrow> backBtnClick s
      | _ \<Rightarrow> navigate_home s)"
| "step Finish_click s =
     (case screen s of
        Question_screen q \<Rightarrow> finishBtnClick s
      | Debate_recording \<Rightarrow> finishBtnClick s
      | Debate_selection \<Rightarrow> navigate_home s
      | Part_transition \<Rightarrow> navigate_home s
      | _ \<Rightarrow> s)"
| "step Home_click s =
     (case screen s of
        Upgrade_prompt \<Rightarrow> navigate_home s
      | Results overall badge \<Rightarrow> navigate_home s
      | Results_error msg \<Rightarrow> navigate_home s
      | _ \<Rightarrow> s)"
| "step (Side_click sd) s = (if screen s = Debate_selection then sideBtnClick sd s else s)"
| "step Continue_click s = (if screen s = Part_transition then renderQuestion s else s)"
| "step Next_click s =
     (if has_recorder_area (screen s) \<and> actionArea s = A_next then goNext s else s)"
| "step See_results_click s =
     (if has_recorder_area (screen s) \<and> actionArea s = A_see_results then showResults s
      else s)"
| "step (Interval_fires t now) s = interval_fires t now s"
| "step (Stop_event m) s = mediaRecorder_onstop m s"
| "step (Respond_settles i result) s = handleRecording_settles i result s"
| "step (Tts_settles ok) s = playQuestion_settles ok s"
| "step (Complete_settles result) s = showResults_settles result s"

text \<open>A run: the events applied in order.\<close>

fun run :: "event list \<Rightarrow> page \<Rightarrow> page" where
  "run [] s = s"
| "run (ev # evs) s = run evs (step ev s)"

text \<open>The page as the script files define it, the home page on the screen.\<close>

definition init :: page where
  "init =
     \<lparr>sessionId = None, test = None, currentPartIndex = 0, currentIndex = 0,
      responses = [], state = idle, showTranscription = True, selectedVoice = None,
      mood = ''normal'', recordingStartTime = None, autoAdvanceTimer = None,
      currentAudio = None, debateSide = None,
      R_mediaRecorder = None, R_stream = None, R_startTime = None,
      R_timerInterval = None, R_onTick = None, R_onStop = False, R_maxDuration = None,
      R_mimeType = [],
      recorders = [], streams = [], intervals = [], audios = [],
      gen = 0, screen = Home, hint = Tap_to_start, btn_recording = False,
      btn_disabled = False, transcriptionArea = T_empty, actionArea = A_empty,
      pending = [], respond_log = [], tts_inflight = [], complete_inflight = 0\<rparr>"

subsection \<open>Scenarios\<close>

text \<open>
  A test with one question in part 1.1, two in part 1.2, one in part 2 and a debate
  topic. In \<open>evs_E\<close> the user answers the question of part 1.1 and the first question of
  part 1.2 (each recording lasts six seconds) and moves on to the second question of
  part 1.2.
\<close>

definition test_E :: test where
  "test_E = [''1.1'' \<mapsto> \<lparr>questions = Some [''q1''], topic = None\<rparr>,
             ''1.2'' \<mapsto> \<lparr>questions = Some [''p1'', ''p2''], topic = None\<rparr>,
             ''2'' \<mapsto> \<lparr>questions = Some [''d1''], topic = None\<rparr>,
             ''3'' \<mapsto> \<lparr>questions = None, topic = Some ''Homework''\<rparr>]"

definition evs_E :: "event list" where
  "evs_E = [Open_mock_test (Inr (''s1'', test_E)), Start_click,
     Record_click 0 True [], Record_click 6000 True [], Stop_event 0,
     Respond_settles 0 (Inr (utf16_of ''a one'', 6)), Next_click, Continue_click,
     Record_click 20000 True [], Record_click 26000 True [], Stop_event 1,
     Respond_settles 0 (Inr (utf16_of ''a two'', 6)), Next_click]"

definition state_E :: page where
  "state_E = run evs_E init"

text \<open>
  A test whose part 1.1 has two questions. In \<open>state_B\<close> the user has started to
  record the answer to the first one at clock value 1000. In \<open>state_P\<close> the user chose
  the voice \<open>sarah\<close> before starting, and the speech for the first question has
  arrived and plays.
\<close>

definition test_A :: test where
  "test_A = [''1.1'' \<mapsto> \<lparr>questions = Some [''q1'', ''q2''], topic = None\<rparr>]"

definition state_B :: page where
  "state_B = run [Open_mock_test (Inr (''s1'', test_A)), Start_click,
                  Record_click 1000 True []] init"

definition state_P :: page where
  "state_P = run [Open_mock_test (Inr (''s1'', test_A)), Voice_click ''sarah'', Start_click,
                  Tts_settles True] init"

text \<open>
  In \<open>evs_Z\<close> the user answers the first question of \<open>test_A\<close>, taps the record
  button again one second after the transcript has arrived, lets the auto-advance
  countdown run out while that recording goes on, and taps the record button of the
  next question.
\<close>

definition evs_Z :: "event list" where
  "evs_Z = [Open_mock_test (Inr (''s1'', test_A)), Start_click,
     Record_click 0 True [], Record_click 6000 True [], Stop_event 0,
     Respond_settles 0 (Inr (utf16_of ''a one'', 6)),
     Record_click 7000 True [],
     Interval_fires 1 7100, Interval_fires 1 8100, Interval_fires 1 9100,
     Interval_fires 1 10100, Interval_fires 1 11100,
     Record_click 13000 True []]"

text \<open>The recorder after one successful \<open>start\<close> on a fresh page.\<close>

definition state_R :: page where
  "state_R = snd (Recorder_start 0 None 0 True [] init)"



text \<open>
  In \<open>state_F\<close> the user has recorded six seconds for the first question of \<open>test_A\<close>
  and stopped; the request is in flight.
\<close>

definition state_F :: page where
  "state_F = run [Open_mock_test (Inr (''s1'', test_A)), Start_click,
                  Record_click 1000 True [], Record_click 7000 True [], Stop_event 0] init"

text \<open>
  \<open>state_L\<close> continues from \<open>state_F\<close>, where a request is in flight: the user taps
  Back, opens the mock test again from the home page, and the start call fails with
  the message of the daily limit. In \<open>evs_stale\<close> the request of the earlier run then
  settles with a transcript and the countdown it starts runs out, with no tap of the
  user. In \<open>evs_side\<close> the user taps Continue three times and chooses a side; in
  \<open>evs_answer\<close> the user records for six seconds an answer that is transcribed, and
  taps See Results.
\<close>

definition state_L :: page where
  "state_L = run [Back_click, Open_mock_test (Inl ''Daily mock limit reached'')] state_F"

definition evs_stale :: "event list" where
  "evs_stale = [Respond_settles 0 (Inr (utf16_of ''a one'', 6)),
     Interval_fires 1 9000, Interval_fires 1 10000, Interval_fires 1 11000,
     Interval_fires 1 12000, Interval_fires 1 13000]"

definition evs_side :: "event list" where
  "evs_side = [Continue_click, Continue_click, Continue_click, Side_click For]"

definition evs_answer :: "event list" where
  "evs_answer = [Record_click 20000 True [], Record_click 26000 True [], Stop_event 1,
     Respond_settles 0 (Inr (utf16_of ''i agree'', 6)), See_results_click]"

text \<open>A test whose part 1.1 has an empty question list; \<open>state_G\<close> follows a tap on Start.\<close>

definition test_empty :: test where
  "test_empty = [''1.1'' \<mapsto> \<lparr>questions = Some [], topic = None\<rparr>,
                 ''1.2'' \<mapsto> \<lparr>questions = Some [''p1''], topic = None\<rparr>]"

definition state_G :: page where
  "state_G = run [Open_mock_test (Inr (''s1'', test_empty)), Start_click] init"

subsection \<open>Observations on runs\<close>




text \<open>Opening the mock test starts a new run of the exam.\<close>

fun is_open :: "event \<Rightarrow> bool" where
  "is_open (Open_mock_test result) = True"
| "is_open ev = False"


text \<open>
  Nothing is scheduled: every interval is cleared, no recorder has a \<open>stop\<close> event
  queued, and no network call is in flight. \<open>parked\<close>: in addition no test is loaded
  and the screen is the upgrade prompt or the home page.
\<close>

definition quiet :: "page \<Rightarrow> bool" where
  "quiet s =
     (list_all (\<lambda>x. x = Cleared) (intervals s) \<and>
      list_all (\<lambda>r. r \<noteq> MR_stopping) (recorders s) \<and>
      pending s = [] \<and> tts_inflight s = [] \<and> complete_inflight s = 0)"

definition parked :: "page \<Rightarrow> bool" where
  "parked s = (quiet s \<and> test s = None \<and> (screen s = Upgrade_prompt \<or> screen s = Home))"

section \<open>The practice page\<close>

subsection \<open>Starting a session, in the version with the debate part\<close>

text \<open>
  \<open>PracticePage\<close> in its version with parts 1.1 to 3 (unnamed/part_006 lines 4-125):
  its fields, without the images, and what the container shows. An entry of its
  \<open>responses\<close> holds question, transcription and duration.
\<close>

datatype pscreen = P_home | P_loading | P_no_questions | P_error string | P_question string
  | P_debate_selection

record practice =
  P_sessionId :: "string option"
  P_questions :: "string list"
  P_partData :: "part_data option"
  P_currentIndex :: nat
  P_part :: string
  P_responses :: "(string option \<times> utf16 \<times> rat) list"
  P_state :: phase
  P_debateSide :: "side option"
  P_screen :: pscreen

text \<open>
  \<open>renderQuestion\<close> (lines 76-125): the question shown is
  \<open>this.questions[this.currentIndex]\<close>, \<open>undefined\<close> when there is none.
\<close>

definition Practice_renderQuestion :: "practice \<Rightarrow> practice" where
  "Practice_renderQuestion s =
     s\<lparr>P_screen :=
         P_question (if P_currentIndex s < length (P_questions s)
                     then P_questions s ! P_currentIndex s else ''undefined'')\<rparr>"

text \<open>
  \<open>startSession\<close> (lines 28-74) with the outcome of the start call: the message of the
  error, or \<open>session_id\<close>, \<open>questions\<close> and \<open>part_data\<close> of the result.
\<close>

definition Practice_startSession ::
  "string + string \<times> string list option \<times> part_data option \<Rightarrow> practice \<Rightarrow> practice" where
  "Practice_startSession result s0 =
     (let s = s0\<lparr>P_screen := P_loading\<rparr>
      in case result of
           Inl message \<Rightarrow> s\<lparr>P_screen := P_error message\<rparr>
         | Inr (session_id, qs, pd) \<Rightarrow>
             (let s1 = s\<lparr>P_sessionId := Some session_id,
                         P_questions := (case qs of None \<Rightarrow> [] | Some q \<Rightarrow> q),
                         P_partData := pd\<rparr>
              in if P_part s1 = ''3'' \<and> P_partData s1 \<noteq> None
                 then s1\<lparr>P_screen := P_debate_selection\<rparr>
                 else if P_questions s1 = [] then s1\<lparr>P_screen := P_no_questions\<rparr>
                 else Practice_renderQuestion s1))"

text \<open>\<open>render\<close> (lines 15-26); \<open>params.part || '1.1'\<close>.\<close>

definition Practice_render ::
  "string option \<Rightarrow> string + string \<times> string list option \<times> part_data option \<Rightarrow>
   practice \<Rightarrow> practice" where
  "Practice_render part_param result s =
     Practice_startSession result
       (s\<lparr>P_part := (case part_param of None \<Rightarrow> ''1.1'' | Some p \<Rightarrow> if p = [] then ''1.1'' else p),
          P_currentIndex := 0, P_responses := [], P_state := idle, P_questions := [],
          P_partData := None, P_debateSide := None\<rparr>)"

text \<open>The Back button of the screen without questions (line 55).\<close>

definition Practice_backClick :: "practice \<Rightarrow> practice" where
  "Practice_backClick s = s\<lparr>P_screen := P_home\<rparr>"

subsection \<open>Recording and submitting (webapp/js/pages/practice.js)\<close>






























section \<open>Properties of the projections\<close>

lemma Math_round_nearest: "\<bar>of_int (Math_round x) - x\<bar> \<le> 1 / 2"
  unfolding Math_round_def by linarith

subsection \<open>Rounding to binary64\<close>

text \<open>
  \<open>ilog2\<close> is the exponent, \<open>round_ties_even\<close> is within one half of its argument, and
  the value \<open>fl_pos\<close> returns is a multiple of the spacing at the exponent of its
  argument, at most half of that spacing away from it.
\<close>

lemma bit_length_pos: "0 < n \<Longrightarrow> bit_length n = 1 + bit_length (n div 2)"
  by (subst bit_length.simps) simp

lemma bit_length_bounds:
  "0 < n \<Longrightarrow> 0 < bit_length n \<and> 2 ^ nat (bit_length n - 1) \<le> n \<and> n < 2 ^ nat (bit_length n)"
proof (induction n rule: bit_length.induct)
  case (1 n)
  show ?case
  proof (cases "n div 2 = 0")
    case True
    with "1.prems" have "n = 1"
      by presburger
    then show ?thesis
      by (simp add: bit_length.simps)
  next
    case False
    with "1.prems" have p: "0 < n div 2"
      by presburger
    from "1.prems" have "\<not> n \<le> 0"
      by simp
    from "1.IH" [OF this p] have ih: "0 < bit_length (n div 2)"
      "2 ^ nat (bit_length (n div 2) - 1) \<le> n div 2"
      "n div 2 < 2 ^ nat (bit_length (n div 2))"
      by simp_all
    have b: "bit_length n = 1 + bit_length (n div 2)"
      using "1.prems" by (rule bit_length_pos)
    have e1: "nat (bit_length n - 1) = Suc (nat (bit_length (n div 2) - 1))"
      using ih(1) b by simp
    have e2: "nat (bit_length n) = Suc (nat (bit_length (n div 2)))"
      using ih(1) b by simp
    have l: "2 * 2 ^ nat (bit_length (n div 2) - 1) \<le> n"
      using ih(2) by presburger
    have u: "n < 2 * 2 ^ nat (bit_length (n div 2))"
      using ih(3) by presburger
    have "0 < bit_length n"
      using ih(1) b by simp
    moreover have "2 ^ nat (bit_length n - 1) \<le> n"
      unfolding e1 using l by simp
    moreover have "n < 2 ^ nat (bit_length n)"
      unfolding e2 using u by simp
    ultimately show ?thesis
      by blast
  qed
qed

lemma round_ties_even_nearest: "\<bar>of_int (round_ties_even x) - x\<bar> \<le> 1 / 2"
proof -
  have f: "of_int \<lfloor>x\<rfloor> \<le> x" "x < of_int \<lfloor>x\<rfloor> + 1"
    by linarith+
  consider "x - of_int \<lfloor>x\<rfloor> < 1 / 2" | "1 / 2 < x - of_int \<lfloor>x\<rfloor>"
    | "x - of_int \<lfloor>x\<rfloor> = 1 / 2"
    by linarith
  then show ?thesis
  proof cases
    case 1
    then have "round_ties_even x = \<lfloor>x\<rfloor>"
      by (simp add: round_ties_even_def Let_def)
    then show ?thesis
      using f 1 by simp
  next
    case 2
    then have "round_ties_even x = \<lfloor>x\<rfloor> + 1"
      by (simp add: round_ties_even_def Let_def)
    then show ?thesis
      using f 2 by simp
  next
    case 3
    then have "round_ties_even x = \<lfloor>x\<rfloor> \<or> round_ties_even x = \<lfloor>x\<rfloor> + 1"
      by (simp add: round_ties_even_def Let_def)
    then show ?thesis
      using f 3 by auto
  qed
qed


lemma pow2_powi: "pow2 k = 2 powi k"
  by (simp add: pow2_def power_int_def power_one_over inverse_eq_divide)

lemma pow2_pos: "0 < pow2 k"
  by (simp add: pow2_powi)

lemma pow2_add: "pow2 (j + k) = pow2 j * pow2 k"
  by (simp add: pow2_powi power_int_add)

lemma pow2_nat: "0 \<le> k \<Longrightarrow> pow2 k = 2 ^ nat k"
  by (simp add: pow2_def)

lemma pow2_one: "pow2 1 = 2"
  by (simp add: pow2_def)

lemma floor_bounds_pow2:
  assumes "1 \<le> y"
  shows "0 \<le> bit_length \<lfloor>y\<rfloor> - 1 \<and> pow2 (bit_length \<lfloor>y\<rfloor> - 1) \<le> y
         \<and> y < pow2 (bit_length \<lfloor>y\<rfloor>)"
proof -
  let ?n = "\<lfloor>y\<rfloor>"
  let ?b = "bit_length ?n"
  have n: "0 < ?n"
    using assms by linarith
  from bit_length_bounds [OF n] have b: "0 < ?b" "2 ^ nat (?b - 1) \<le> ?n" "?n < 2 ^ nat ?b"
    by simp_all
  have "(of_int (2 ^ nat (?b - 1)) :: rat) \<le> of_int ?n"
    using b(2) by (simp only: of_int_le_iff)
  then have l: "(2 :: rat) ^ nat (?b - 1) \<le> y"
    by (simp add: le_floor_iff)
  have "?n + 1 \<le> 2 ^ nat ?b"
    using b(3) by simp
  then have "(of_int (?n + 1) :: rat) \<le> of_int (2 ^ nat ?b)"
    by (simp only: of_int_le_iff)
  then have u: "y < (2 :: rat) ^ nat ?b"
    by simp linarith
  show ?thesis
    using b(1) l u by (simp add: pow2_nat)
qed

lemma ilog2_bounds:
  assumes "0 < x"
  shows "pow2 (ilog2 x) \<le> x \<and> x < pow2 (ilog2 x + 1)"
proof (cases "1 \<le> x")
  case True
  from floor_bounds_pow2 [OF True] show ?thesis
    using True by (simp add: ilog2_def)
next
  case False
  let ?k = "bit_length \<lfloor>1 / x\<rfloor> - 1"
  have y: "1 \<le> 1 / x"
    using False assms by simp
  from floor_bounds_pow2 [OF y] have k: "0 \<le> ?k" "pow2 ?k \<le> 1 / x" "1 / x < pow2 (?k + 1)"
    by simp_all
  have p: "0 < pow2 ?k"
    by (rule pow2_pos)
  have u: "x * pow2 ?k \<le> 1"
    using k(2) assms by (simp add: field_simps)
  have l: "1 < x * pow2 (?k + 1)"
    using k(3) assms by (simp add: field_simps)
  have m1: "pow2 (- ?k) * pow2 ?k = 1"
    using pow2_add [of "- ?k" ?k] by (simp add: pow2_def)
  have m2: "pow2 (- ?k - 1) * pow2 (?k + 1) = 1"
    using pow2_add [of "- ?k - 1" "?k + 1"] by (simp add: pow2_def)
  have m3: "pow2 (- ?k + 1) * pow2 ?k = 2"
    using pow2_add [of "- ?k + 1" ?k] by (simp add: pow2_def)
  note m = m1 m2 m3
  show ?thesis
  proof (cases "x * pow2 ?k = 1")
    case True
    then have i: "ilog2 x = - ?k"
      using False by (simp add: ilog2_def Let_def)
    have "pow2 (- ?k) * pow2 ?k = x * pow2 ?k"
      using True m(1) by simp
    then have e: "pow2 (- ?k) = x"
      using p by simp
    have "pow2 (- ?k + 1) * pow2 ?k = (2 * x) * pow2 ?k"
      using True m(3) by simp
    then have "pow2 (- ?k + 1) = 2 * x"
      using p by simp
    then show ?thesis
      using i e assms by simp
  next
    case neq: False
    then have i: "ilog2 x = - ?k - 1"
      using False by (simp add: ilog2_def Let_def)
    have "pow2 (- ?k - 1) * pow2 (?k + 1) < x * pow2 (?k + 1)"
      using l m(2) by simp
    then have a: "pow2 (- ?k - 1) < x"
      using pow2_pos [of "?k + 1"] by simp
    have "x * pow2 ?k < pow2 (- ?k) * pow2 ?k"
      using u neq m(1) by simp
    then have b: "x < pow2 (- ?k)"
      using p by simp
    show ?thesis
      using i a b by simp
  qed
qed



lemma floor_divide_numeral_rat:
  "\<lfloor>numeral a / numeral b :: rat\<rfloor> = numeral a div numeral b"
  by (metis floor_divide_of_int_eq of_int_numeral)

lemmas fl_eval = wpm_def fdiv_def fmul_def fl_def fl_pos_def ilog2_def pow2_def
  round_ties_even_def Math_round_def Let_def bit_length.simps floor_divide_numeral_rat

lemma fl_pos_error:
  assumes "fl_pos x = Some y"
  shows "\<bar>y - x\<bar> \<le> pow2 (max (ilog2 x) (- 1022) - 52) / 2"
proof -
  define q where "q = pow2 (max (ilog2 x) (- 1022) - 52)"
  define r :: rat where "r = of_int (round_ties_even (x / q))"
  have q: "0 < q"
    unfolding q_def by (rule pow2_pos)
  have y: "y = r * q"
    using assms by (simp add: fl_pos_def Let_def q_def r_def split: if_splits)
  have e: "(r - x / q) * q = y - x"
    using q y by (simp add: left_diff_distrib)
  have "\<bar>y - x\<bar> = \<bar>r - x / q\<bar> * \<bar>q\<bar>"
    unfolding e [symmetric] by (rule abs_mult)
  also have "\<dots> = \<bar>r - x / q\<bar> * q"
    using q by simp
  also have "\<dots> \<le> 1 / 2 * q"
    using round_ties_even_nearest [of "x / q"] q
    unfolding r_def by (simp only: mult_le_cancel_right_pos)
  finally show ?thesis
    by (simp add: q_def)
qed

lemma fl_pos_grid:
  assumes "fl_pos x = Some y"
  shows "y = of_int (round_ties_even (x / pow2 (max (ilog2 x) (- 1022) - 52))) *
               pow2 (max (ilog2 x) (- 1022) - 52) \<and> y < pow2 1024"
  using assms by (simp add: fl_pos_def Let_def split: if_splits)

subsection \<open>Counting words\<close>

lemma split_from_count:
  "(in_sep \<longrightarrow> cur = []) \<Longrightarrow>
   length (filter (\<lambda>w. length w > 0) (split_from cur in_sep s)) =
     (if cur = [] then token_starts True s else 1 + token_starts False s)"
  by (induction s arbitrary: cur in_sep) auto

lemma words_token_starts: "words t = token_starts True t"
  unfolding words_def split_ws_def using split_from_count [of False "[]" t] by simp

text \<open>
  C10. For a non-null numeric overall score the badge is found by rounding the score to
  the nearest integer and comparing it with fixed thresholds: C1 from 65, B2 from 51,
  B1 from 38, Below B1 otherwise; a null score has no badge.
\<close>

theorem cefrBadge_thresholds:
  "cefrBadge None = None \<and>
   cefrBadge (Some x) =
     Some (if 65 \<le> Math_round x then C1
           else if 51 \<le> Math_round x then B2
           else if 38 \<le> Math_round x then B1
           else Below_B1) \<and>
   \<bar>of_int (Math_round x) - x\<bar> \<le> 1 / 2"
  using Math_round_nearest [of x] by (simp add: cefrBadge_def Let_def)

section \<open>Properties of the mock test page\<close>

lemmas page_defs = render_def renderIntro_def renderQuestion_def set_screen_def
  clearAutoAdvance_def currentPart_def currentPartData_def currentQuestions_def parts_def
  playQuestion_def pause_currentAudio_def recordBtnClick_def Recorder_start_def
  Recorder_stop_def Recorder_cleanup_def mediaRecorder_onstop_def handleRecording_def
  handleRecording_settles_def handleRecording_catch_def showNextWithAutoAdvance_def
  dom_write_def goNext_def renderPartTransition_def has_recorder_area_def mimeTypes_def
  showResults_def renderDebateSelection_def renderDebateRecording_def backBtnClick_def
  finishBtnClick_def navigate_home_def isRecording_def interval_fires_def
  playQuestion_settles_def voiceCardClick_def sideBtnClick_def showResults_settles_def
  Let_def

lemma state_E_eq:
  "state_E =
    \<lparr>sessionId = Some ''s1'', test = Some test_E, currentPartIndex = 1, currentIndex = 1,
     responses =
       [\<lparr>part = Some ''1.1'', question = Some ''q1'', transcription = utf16_of ''a one'',
          duration = 6\<rparr>,
        \<lparr>part = Some ''1.2'', question = Some ''p1'', transcription = utf16_of ''a two'',
          duration = 6\<rparr>],
     state = idle, showTranscription = True, selectedVoice = None, mood = ''normal'',
     recordingStartTime = Some 20000, autoAdvanceTimer = None, currentAudio = None,
     debateSide = None, R_mediaRecorder = Some 1, R_stream = None,
     R_startTime = Some 20000, R_timerInterval = None, R_onTick = Some 5,
     R_onStop = True, R_maxDuration = None, R_mimeType = ''audio/webm'',
     recorders = [MR_inactive, MR_inactive], streams = [False, False],
     intervals = [Cleared, Cleared, Cleared, Cleared], audios = [], gen = 6,
     screen = Question_screen ''p2'', hint = Tap_to_start, btn_recording = False,
     btn_disabled = False, transcriptionArea = T_empty, actionArea = A_empty,
     pending = [],
     respond_log =
       [(\<lparr>p_part = Some ''1.1'', p_questionText = Some ''q1'', p_isDebate = False,
           p_gen = 3\<rparr>, Inr (utf16_of ''a one'', 6)),
        (\<lparr>p_part = Some ''1.2'', p_questionText = Some ''p1'', p_isDebate = False,
           p_gen = 5\<rparr>, Inr (utf16_of ''a two'', 6))],
     tts_inflight = [], complete_inflight = 0\<rparr>"
  unfolding state_E_def evs_E_def init_def
  by (simp add: page_defs test_E_def)

text \<open>
  C1, as stated, fails: with two responses collected and the second question of part
  1.2 on the screen, the Finish button leads to the home page; no \<open>complete\<close> call is in
  flight afterwards and the state differs from the one \<open>showResults\<close> produces.
\<close>

theorem finish_early_counterexample:
  "length (responses state_E) = 2 \<and>
   screen state_E = Question_screen ''p2'' \<and>
   screen (step Finish_click state_E) = Home \<and>
   complete_inflight (step Finish_click state_E) = 0 \<and>
   step Finish_click state_E \<noteq> showResults state_E"
proof -
  have "screen (showResults state_E) = Results_loading"
    by (simp add: showResults_def set_screen_def)
  moreover have "screen (step Finish_click state_E) = Home"
    by (simp add: state_E_eq page_defs)
  ultimately have "step Finish_click state_E \<noteq> showResults state_E"
    by auto
  then show ?thesis
    by (simp add: state_E_eq page_defs)
qed

text \<open>
  C1, as the page does it: the Finish button of the question screen and of the debate
  recording screen runs the same handler as the Back button. Wherever it is tapped, it
  either shows the home page or does nothing (no such button on the screen); it sends no
  \<open>complete\<close> call and leaves the responses and the settled calls as they are.
\<close>

theorem finish_navigates_home:
  "finishBtnClick s = backBtnClick s \<and>
   (screen (step Finish_click s) = Home \<or> step Finish_click s = s) \<and>
   responses (step Finish_click s) = responses s \<and>
   complete_inflight (step Finish_click s) = complete_inflight s \<and>
   respond_log (step Finish_click s) = respond_log s"
  by (cases "screen s")
    (simp_all add: finishBtnClick_def backBtnClick_def navigate_home_def set_screen_def
      clearAutoAdvance_def Recorder_stop_def Let_def split: option.splits)

theorem finish_navigates_home_witness:
  "finishBtnClick state_E = backBtnClick state_E \<and>
   screen (step Finish_click state_E) = Home \<and>
   responses (step Finish_click state_E) = responses state_E \<and>
   complete_inflight (step Finish_click state_E) = 0"
  using finish_navigates_home [of state_E]
  by (simp add: state_E_eq page_defs)

text \<open>
  C3. A tap on the record button while the page is recording and less than five seconds
  have passed since the recording started changes the hint to \<open>Wait Ns more...\<close>, where
  N is the remaining time rounded up to whole seconds (at least 1), and nothing else:
  the page stays in the recording phase, \<open>Recorder.stop\<close> is not called (no recorder
  changes its state), no request is sent, no response is appended, and the part and
  prompt indices are unchanged.
\<close>

theorem early_stop_rejected:
  assumes "state s = recording" and "recordingStartTime s = Some t0" and "now - t0 < 5000"
  shows "recordBtnClick now mic supported s =
           s\<lparr>hint := Wait_more \<lceil>(5 :: rat) - of_int (now - t0) / 1000\<rceil>\<rparr> \<and>
         1 \<le> \<lceil>(5 :: rat) - of_int (now - t0) / 1000\<rceil> \<and>
         state (recordBtnClick now mic supported s) = recording \<and>
         recorders (recordBtnClick now mic supported s) = recorders s \<and>
         isRecording (recordBtnClick now mic supported s) = isRecording s \<and>
         responses (recordBtnClick now mic supported s) = responses s \<and>
         pending (recordBtnClick now mic supported s) = pending s \<and>
         currentIndex (recordBtnClick now mic supported s) = currentIndex s \<and>
         currentPartIndex (recordBtnClick now mic supported s) = currentPartIndex s"
proof -
  have eq: "recordBtnClick now mic supported s =
      s\<lparr>hint := Wait_more \<lceil>(5 :: rat) - of_int (now - t0) / 1000\<rceil>\<rparr>"
    using assms by (simp add: recordBtnClick_def)
  have "(0 :: rat) < 5 - of_int (now - t0) / 1000"
    using assms(3) by simp
  then have "1 \<le> \<lceil>(5 :: rat) - of_int (now - t0) / 1000\<rceil>"
    by linarith
  then show ?thesis
    using assms(1) by (simp add: eq isRecording_def split: option.splits)
qed

lemma state_B_facts:
  "state state_B = recording" "recordingStartTime state_B = Some 1000"
  "hint state_B = Recording_min 5" "screen state_B = Question_screen ''q1''"
  "recorders state_B = [MR_recording]" "responses state_B = []"
  "currentIndex state_B = 0" "R_mediaRecorder state_B = Some 0"
  unfolding state_B_def init_def
  by (simp_all add: page_defs test_A_def)

theorem early_stop_rejected_witness:
  "state state_B = recording \<and> recordingStartTime state_B = Some 1000 \<and>
   (3000 :: int) - 1000 < 5000 \<and>
   step (Record_click 3000 True []) state_B = state_B\<lparr>hint := Wait_more 3\<rparr> \<and>
   isRecording (step (Record_click 3000 True []) state_B) \<and>
   responses (step (Record_click 3000 True []) state_B) = [] \<and>
   currentIndex (step (Record_click 3000 True []) state_B) = 0"
proof -
  have c: "\<lceil>(5 :: rat) - of_int (3000 - 1000) / 1000\<rceil> = 3"
    by simp
  show ?thesis
    using early_stop_rejected [of state_B 1000 3000 True "[]"] c
    by (simp add: state_B_facts has_recorder_area_def isRecording_def)
qed

lemma back_keeps_audio:
  "audios (backBtnClick s) = audios s" "currentAudio (backBtnClick s) = currentAudio s"
  "audios (finishBtnClick s) = audios s" "currentAudio (finishBtnClick s) = currentAudio s"
  by (simp_all add: backBtnClick_def finishBtnClick_def navigate_home_def set_screen_def
      clearAutoAdvance_def Recorder_stop_def Let_def split: option.splits)

text \<open>
  C5 at a concrete state: a voice is selected, the first question is on the screen and
  its speech plays. After a tap on Back, and likewise on Finish, the home page is shown
  and the audio element still plays: the handlers clear the auto-advance timer and stop
  the recorder, but never pause \<open>currentAudio\<close>.
\<close>

theorem back_leaves_audio_playing:
  "screen state_P = Question_screen ''q1'' \<and>
   currentAudio state_P = Some 0 \<and> audios state_P = [True] \<and>
   screen (step Back_click state_P) = Home \<and>
   audios (step Back_click state_P) = [True] \<and>
   screen (step Finish_click state_P) = Home \<and>
   audios (step Finish_click state_P) = [True]"
  unfolding state_P_def init_def
  by (simp add: page_defs test_A_def)

text \<open>
  C8, as stated, fails: \<open>Recorder.start\<close> called while a recording is active returns
  \<open>true\<close>, and afterwards two recorders record and two streams are live.
\<close>

theorem start_while_recording_counterexample:
  "isRecording state_R \<and> recorders state_R = [MR_recording] \<and>
   fst (Recorder_start 0 None 1000 True [] state_R) = True \<and>
   recorders (snd (Recorder_start 0 None 1000 True [] state_R)) =
     [MR_recording, MR_recording] \<and>
   streams (snd (Recorder_start 0 None 1000 True [] state_R)) = [True, True]"
  unfolding state_R_def init_def
  by (simp add: Recorder_start_def isRecording_def mimeTypes_def Let_def)

text \<open>
  The page can get there: \<open>goNext\<close> sets the page idle without stopping the recorder,
  so that after \<open>evs_Z\<close> the recorder started for the first question still records on
  its live stream, unreferenced, next to the one started for the second question.
\<close>

lemma two_recorders_reachable:
  "recorders (run evs_Z init) = [MR_inactive, MR_recording, MR_recording] \<and>
   streams (run evs_Z init) = [False, True, True] \<and>
   screen (run evs_Z init) = Question_screen ''q2''"
  unfolding evs_Z_def init_def
  by (simp add: page_defs test_A_def)

lemma recordBtnClick_busy:
  "state s \<noteq> idle \<Longrightarrow>
   length (recorders (recordBtnClick now mic supported s)) = length (recorders s)"
  by (cases "state s")
    (simp_all add: recordBtnClick_def Recorder_stop_def Let_def split: option.splits)

text \<open>
  C8, as the recorder does it: \<open>Recorder.start\<close> has no check for a recording in
  progress. Whatever the state, it returns \<open>true\<close> when the microphone is granted, and
  then one more recorder records on one more live stream, all earlier recorders being
  left as they were; it returns \<open>false\<close> when the microphone is refused, and creates no
  recorder then. The page is what keeps recordings apart: its record button calls
  \<open>Recorder.start\<close> only in the idle phase, so that in the recording and processing
  phases a tap creates no recorder.
\<close>

theorem Recorder_start_unguarded:
  "fst (Recorder_start g md now True supported s) = True \<and>
   recorders (snd (Recorder_start g md now True supported s)) = recorders s @ [MR_recording] \<and>
   streams (snd (Recorder_start g md now True supported s)) = streams s @ [True] \<and>
   fst (Recorder_start g md now False supported s) = False \<and>
   recorders (snd (Recorder_start g md now False supported s)) = recorders s \<and>
   (state s \<noteq> idle \<longrightarrow>
      length (recorders (recordBtnClick now mic supported s)) = length (recorders s))"
  by (simp add: Recorder_start_def recordBtnClick_busy Let_def)

theorem Recorder_start_unguarded_witness:
  "fst (Recorder_start 0 None 1000 True [] state_R) = True \<and>
   recorders (snd (Recorder_start 0 None 1000 True [] state_R)) =
     [MR_recording, MR_recording] \<and>
   state state_B \<noteq> idle \<and>
   length (recorders (recordBtnClick 9000 True [] state_B)) = 1"
proof -
  have r: "recorders state_R = [MR_recording]"
    unfolding state_R_def init_def
    by (simp add: Recorder_start_def mimeTypes_def Let_def)
  show ?thesis
    using Recorder_start_unguarded [of 0 None 1000 "[]" state_R]
      Recorder_start_unguarded [of 0 None 9000 "[]" state_B True] r
    by (simp add: state_B_facts)
qed

subsection \<open>The responses list over a run\<close>

lemma keeps_basic [simp]:
  "responses (clearAutoAdvance s) = responses s" "respond_log (clearAutoAdvance s) = respond_log s"
  "responses (pause_currentAudio s) = responses s" "respond_log (pause_currentAudio s) = respond_log s"
  "responses (set_screen sc s) = responses s" "respond_log (set_screen sc s) = respond_log s"
  "responses (Recorder_stop s) = responses s" "respond_log (Recorder_stop s) = respond_log s"
  "responses (Recorder_cleanup s) = responses s" "respond_log (Recorder_cleanup s) = respond_log s"
  "responses (snd (Recorder_start g md now mic supp s)) = responses s"
  "respond_log (snd (Recorder_start g md now mic supp s)) = respond_log s"
  "responses (playQuestion_settles ok s) = responses s"
  "respond_log (playQuestion_settles ok s) = respond_log s"
  "responses (handleRecording_catch g msg s) = responses s"
  "respond_log (handleRecording_catch g msg s) = respond_log s"
  "responses (showNextWithAutoAdvance g s) = responses s"
  "respond_log (showNextWithAutoAdvance g s) = respond_log s"
  by (simp_all add: clearAutoAdvance_def pause_currentAudio_def set_screen_def Recorder_stop_def
      Recorder_cleanup_def Recorder_start_def playQuestion_settles_def handleRecording_catch_def
      showNextWithAutoAdvance_def dom_write_def Let_def split: option.splits list.splits)

lemma keeps_render [simp]:
  "responses (playQuestion t s) = responses s" "respond_log (playQuestion t s) = respond_log s"
  "responses (navigate_home s) = responses s" "respond_log (navigate_home s) = respond_log s"
  "responses (renderIntro s) = responses s" "respond_log (renderIntro s) = respond_log s"
  "responses (renderDebateSelection s) = responses s"
  "respond_log (renderDebateSelection s) = respond_log s"
  "responses (renderPartTransition s) = responses s"
  "respond_log (renderPartTransition s) = respond_log s"
  "responses (showResults s) = responses s" "respond_log (showResults s) = respond_log s"
  "responses (showResults_settles r s) = responses s"
  "respond_log (showResults_settles r s) = respond_log s"
  "responses (handleRecording s) = responses s" "respond_log (handleRecording s) = respond_log s"
  by (simp_all add: playQuestion_def navigate_home_def renderIntro_def renderDebateSelection_def
      renderPartTransition_def showResults_def showResults_settles_def handleRecording_def
      Let_def split: sum.splits)

lemma keeps_debate [simp]:
  "responses (renderDebateRecording s) = responses s"
  "respond_log (renderDebateRecording s) = respond_log s"
  by (simp_all add: renderDebateRecording_def)

lemma keeps_renderQuestion [simp]:
  "responses (renderQuestion s) = responses s" "respond_log (renderQuestion s) = respond_log s"
  by (simp_all add: renderQuestion_def Let_def)

lemma keeps_handlers [simp]:
  "responses (goNext s) = responses s" "respond_log (goNext s) = respond_log s"
  "responses (backBtnClick s) = responses s" "respond_log (backBtnClick s) = respond_log s"
  "responses (finishBtnClick s) = responses s" "respond_log (finishBtnClick s) = respond_log s"
  "responses (sideBtnClick sd s) = responses s" "respond_log (sideBtnClick sd s) = respond_log s"
  "responses (mediaRecorder_onstop m s) = responses s"
  "respond_log (mediaRecorder_onstop m s) = respond_log s"
  "responses (moodBtnClick mo s) = responses s" "respond_log (moodBtnClick mo s) = respond_log s"
  "responses (transcriptionToggleClick s) = responses s"
  "respond_log (transcriptionToggleClick s) = respond_log s"
  "responses (voiceCardClick v s) = responses s" "respond_log (voiceCardClick v s) = respond_log s"
  by (simp_all add: goNext_def backBtnClick_def finishBtnClick_def sideBtnClick_def
      mediaRecorder_onstop_def moodBtnClick_def transcriptionToggleClick_def voiceCardClick_def
      Let_def)

lemma keeps_recordBtnClick [simp]:
  "responses (recordBtnClick now mic supp s) = responses s"
  "respond_log (recordBtnClick now mic supp s) = respond_log s"
proof -
  obtain b s1 where r: "Recorder_start (gen s) None now mic supp s = (b, s1)"
    by (cases "Recorder_start (gen s) None now mic supp s")
  then have "s1 = snd (Recorder_start (gen s) None now mic supp s)"
    by simp
  then have k: "responses s1 = responses s" "respond_log s1 = respond_log s"
    by simp_all
  show "responses (recordBtnClick now mic supp s) = responses s"
    "respond_log (recordBtnClick now mic supp s) = respond_log s"
    using r k by (simp_all add: recordBtnClick_def Let_def)
qed

lemma keeps_interval_fires [simp]:
  "responses (interval_fires t now s) = responses s"
  "respond_log (interval_fires t now s) = respond_log s"
  by (simp_all add: interval_fires_def dom_write_def Let_def split: interval.splits option.splits)













subsection \<open>A failed submission\<close>

lemma state_F_facts:
  "pending state_F = [\<lparr>p_part = Some ''1.1'', p_questionText = Some ''q1'', p_isDebate = False,
      p_gen = 3\<rparr>]"
  "gen state_F = 3" "responses state_F = []" "currentIndex state_F = 0"
  "currentPartIndex state_F = 0" "state state_F = processing"
  "screen state_F = Question_screen ''q1''" "hint state_F = Processing"
  "btn_disabled state_F"
  unfolding state_F_def init_def
  by (simp_all add: page_defs test_A_def)

lemma settles_failure:
  assumes "i < length (pending s)"
  shows "handleRecording_settles i (Inl msg) s =
           handleRecording_catch (p_gen (pending s ! i)) msg
             (s\<lparr>pending := take i (pending s) @ drop (Suc i) (pending s),
                respond_log := respond_log s @ [(pending s ! i, Inl msg)]\<rparr>)"
  using assms by (simp add: handleRecording_settles_def Let_def)

lemma retry_starts:
  assumes "state s = idle"
  shows "state (recordBtnClick now True supported s) = recording \<and>
         isRecording (recordBtnClick now True supported s) \<and>
         responses (recordBtnClick now True supported s) = responses s \<and>
         currentIndex (recordBtnClick now True supported s) = currentIndex s \<and>
         currentPartIndex (recordBtnClick now True supported s) = currentPartIndex s"
  using assms
  by (simp add: recordBtnClick_def Recorder_start_def pause_currentAudio_def isRecording_def
      Let_def split: option.splits)

text \<open>
  C4. When the request of a suspended \<open>handleRecording\<close> fails, no response is
  appended and the responses collected before are unchanged, the part and prompt
  indices and the screen are unchanged, and the page is idle again; if the recorder
  area is still the one the call started from, it shows \<open>Tap to try again\<close> with the
  button enabled. A tap on the record button then starts a new recording for the same
  part and prompt.
\<close>

theorem submit_failure_keeps_responses:
  assumes "i < length (pending s)"
  shows "responses (handleRecording_settles i (Inl msg) s) = responses s \<and>
         currentIndex (handleRecording_settles i (Inl msg) s) = currentIndex s \<and>
         currentPartIndex (handleRecording_settles i (Inl msg) s) = currentPartIndex s \<and>
         screen (handleRecording_settles i (Inl msg) s) = screen s \<and>
         state (handleRecording_settles i (Inl msg) s) = idle \<and>
         (gen s = p_gen (pending s ! i) \<longrightarrow>
            hint (handleRecording_settles i (Inl msg) s) = Try_again \<and>
            \<not> btn_disabled (handleRecording_settles i (Inl msg) s) \<and>
            transcriptionArea (handleRecording_settles i (Inl msg) s) = T_failed msg) \<and>
         state (recordBtnClick now True supported (handleRecording_settles i (Inl msg) s)) =
           recording \<and>
         isRecording (recordBtnClick now True supported (handleRecording_settles i (Inl msg) s)) \<and>
         responses (recordBtnClick now True supported (handleRecording_settles i (Inl msg) s)) =
           responses s \<and>
         currentIndex (recordBtnClick now True supported (handleRecording_settles i (Inl msg) s)) =
           currentIndex s \<and>
         currentPartIndex
           (recordBtnClick now True supported (handleRecording_settles i (Inl msg) s)) =
           currentPartIndex s"
proof -
  let ?s' = "handleRecording_settles i (Inl msg) s"
  have f: "responses ?s' = responses s" "currentIndex ?s' = currentIndex s"
    "currentPartIndex ?s' = currentPartIndex s" "screen ?s' = screen s" "state ?s' = idle"
    by (simp_all add: settles_failure [OF assms] handleRecording_catch_def dom_write_def)
  have d: "gen s = p_gen (pending s ! i) \<longrightarrow>
      hint ?s' = Try_again \<and> \<not> btn_disabled ?s' \<and> transcriptionArea ?s' = T_failed msg"
    by (simp add: settles_failure [OF assms] handleRecording_catch_def dom_write_def)
  show ?thesis
    using f d retry_starts [of ?s' now supported] by simp
qed

theorem submit_failure_keeps_responses_witness:
  "(0 :: nat) < length (pending state_F) \<and>
   responses (step (Respond_settles 0 (Inl ''Transcription failed'')) state_F) = [] \<and>
   currentIndex (step (Respond_settles 0 (Inl ''Transcription failed'')) state_F) = 0 \<and>
   state (step (Respond_settles 0 (Inl ''Transcription failed'')) state_F) = idle \<and>
   hint (step (Respond_settles 0 (Inl ''Transcription failed'')) state_F) = Try_again \<and>
   state (step (Record_click 9000 True [])
            (step (Respond_settles 0 (Inl ''Transcription failed'')) state_F)) = recording"
  using submit_failure_keeps_responses [of 0 state_F "''Transcription failed''" 9000 "[]"]
  by (simp add: state_F_facts has_recorder_area_def)

subsection \<open>A part without questions\<close>

text \<open>
  C6, as stated, fails: when part 1.1 has no questions, Start leads to the ordinary
  transition screen for part 1.2, from which Continue shows the first question of part
  1.2; there is no terminal state for the part without content.
\<close>

theorem empty_part_counterexample:
  "currentPartIndex (run [Open_mock_test (Inr (''s1'', test_empty))] init) = 0 \<and>
   currentQuestions (run [Open_mock_test (Inr (''s1'', test_empty))] init) = [] \<and>
   screen state_G = Part_transition \<and> currentPartIndex state_G = 1 \<and>
   screen (step Continue_click state_G) = Question_screen ''p1''"
  unfolding state_G_def init_def
  by (simp add: page_defs test_empty_def)

lemma currentPart_early:
  "currentPartIndex s < 3 \<Longrightarrow> currentPart s \<noteq> Some ''3''"
proof -
  assume "currentPartIndex s < 3"
  then have "currentPartIndex s = 0 \<or> currentPartIndex s = 1 \<or> currentPartIndex s = 2"
    by arith
  then show ?thesis
    by (auto simp: currentPart_def parts_def)
qed

lemma getters_cong:
  assumes "currentPartIndex a = currentPartIndex b" and "test a = test b"
  shows "currentPart a = currentPart b" and "currentPartData a = currentPartData b"
    and "currentQuestions a = currentQuestions b"
proof -
  show p: "currentPart a = currentPart b"
    using assms by (simp add: currentPart_def)
  show d: "currentPartData a = currentPartData b"
    unfolding currentPartData_def p assms(2) ..
  show "currentQuestions a = currentQuestions b"
    unfolding currentQuestions_def d ..
qed

lemma renderQuestion_empty:
  assumes "currentPartIndex s < 3" and "currentQuestions s = []"
  shows "screen (renderQuestion s) = Part_transition \<and>
         currentPartIndex (renderQuestion s) = currentPartIndex s + 1 \<and>
         currentIndex (renderQuestion s) = 0 \<and>
         responses (renderQuestion s) = responses s"
proof -
  let ?c = "clearAutoAdvance s"
  have c: "currentPartIndex ?c = currentPartIndex s" "test ?c = test s"
    "responses ?c = responses s"
    by (simp_all add: clearAutoAdvance_def split: option.splits)
  have p: "currentPart ?c = currentPart s" "currentQuestions ?c = currentQuestions s"
    using getters_cong [of ?c s] c by blast+
  have "renderQuestion s =
      renderPartTransition (?c\<lparr>currentPartIndex := currentPartIndex ?c + 1, currentIndex := 0,
        debateSide := None\<rparr>)"
    using assms currentPart_early [OF assms(1)] p c
    by (simp add: renderQuestion_def Let_def parts_def)
  then show ?thesis
    using c by (simp add: renderPartTransition_def set_screen_def clearAutoAdvance_def
        split: option.splits)
qed

text \<open>
  C6, as the pages do it. In the mock test a part before the debate whose question list
  is empty is skipped: \<open>renderQuestion\<close> moves to the next part and shows its
  transition screen, the responses being unchanged. The practice page, when the session
  has no questions (and is not a debate with part data), shows the screen
  \<open>No questions available\<close>, whose Back button leads to the home page.
\<close>

theorem empty_part_handling:
  "(currentPartIndex s < 3 \<and> currentQuestions s = [] \<longrightarrow>
      screen (renderQuestion s) = Part_transition \<and>
      currentPartIndex (renderQuestion s) = currentPartIndex s + 1 \<and>
      currentIndex (renderQuestion s) = 0 \<and>
      responses (renderQuestion s) = responses s) \<and>
   (\<not> (P_part ps = ''3'' \<and> pd \<noteq> None) \<and> (qs = None \<or> qs = Some []) \<longrightarrow>
      P_screen (Practice_startSession (Inr (sid, qs, pd)) ps) = P_no_questions \<and>
      P_responses (Practice_startSession (Inr (sid, qs, pd)) ps) = P_responses ps \<and>
      P_screen (Practice_backClick (Practice_startSession (Inr (sid, qs, pd)) ps)) = P_home)"
  using renderQuestion_empty [of s]
  by (auto simp: Practice_startSession_def Practice_backClick_def Let_def)

theorem empty_part_handling_witness:
  "currentPartIndex (step (Open_mock_test (Inr (''s1'', test_empty))) init) < 3 \<and>
   currentQuestions (step (Open_mock_test (Inr (''s1'', test_empty))) init) = [] \<and>
   screen (renderQuestion (step (Open_mock_test (Inr (''s1'', test_empty))) init)) =
     Part_transition \<and>
   currentPartIndex (renderQuestion (step (Open_mock_test (Inr (''s1'', test_empty))) init)) = 1 \<and>
   P_screen (Practice_startSession (Inr (''s2'', Some [], None))
     \<lparr>P_sessionId = None, P_questions = [], P_partData = None, P_currentIndex = 0,
      P_part = ''2'', P_responses = [], P_state = idle, P_debateSide = None,
      P_screen = P_home\<rparr>) = P_no_questions"
proof -
  let ?s = "step (Open_mock_test (Inr (''s1'', test_empty))) init"
  let ?ps = "\<lparr>P_sessionId = None, P_questions = [], P_partData = None, P_currentIndex = 0,
      P_part = ''2'', P_responses = [], P_state = idle, P_debateSide = None,
      P_screen = P_home\<rparr>"
  have h: "currentPartIndex ?s < 3" "currentQuestions ?s = []" "currentPartIndex ?s = 0"
    by (simp_all add: init_def page_defs test_empty_def)
  show ?thesis
    using empty_part_handling [of ?s ?ps None "Some []" "''s2''"] h by simp
qed

subsection \<open>The daily limit\<close>

lemma quiet_interval: "quiet s \<Longrightarrow> interval_fires t now s = s"
  by (auto simp: quiet_def interval_fires_def list_all_length)

lemma quiet_stop: "quiet s \<Longrightarrow> mediaRecorder_onstop m s = s"
  by (auto simp: quiet_def mediaRecorder_onstop_def list_all_length)

lemma quiet_settles:
  "quiet s \<Longrightarrow> handleRecording_settles i r s = s"
  "quiet s \<Longrightarrow> playQuestion_settles ok s = s"
  "quiet s \<Longrightarrow> showResults_settles r' s = s"
  by (simp_all add: quiet_def handleRecording_settles_def playQuestion_settles_def
      showResults_settles_def)

lemma quiet_set_screen:
  "quiet (set_screen sc s) = quiet s" "screen (set_screen sc s) = sc"
  "test (set_screen sc s) = test s"
  by (simp_all add: quiet_def set_screen_def)

lemma list_all_update: "list_all P xs \<Longrightarrow> P x \<Longrightarrow> list_all P (xs[i := x])"
  by (induction xs arbitrary: i) (auto split: nat.splits)

lemma quiet_clearAutoAdvance: "quiet s \<Longrightarrow> quiet (clearAutoAdvance s)"
  by (auto simp: quiet_def clearAutoAdvance_def list_all_update split: option.splits)
lemma step_parked: "parked s \<Longrightarrow> \<not> is_open ev \<Longrightarrow> parked (step ev s)"
proof (cases ev)
  case (Interval_fires t now)
  assume "parked s"
  then show ?thesis
    using Interval_fires by (simp add: parked_def quiet_interval)
next
  case (Stop_event m)
  assume "parked s"
  then show ?thesis
    using Stop_event by (simp add: parked_def quiet_stop)
next
  case (Respond_settles i r)
  assume "parked s"
  then show ?thesis
    using Respond_settles by (simp add: parked_def quiet_settles)
next
  case (Tts_settles ok)
  assume "parked s"
  then show ?thesis
    using Tts_settles by (simp add: parked_def quiet_settles)
next
  case (Complete_settles r)
  assume "parked s"
  then show ?thesis
    using Complete_settles by (simp add: parked_def quiet_settles)
qed (auto simp: parked_def navigate_home_def quiet_set_screen has_recorder_area_def)

lemma run_parked:
  "parked s \<Longrightarrow> list_all (\<lambda>e. \<not> is_open e) evs \<Longrightarrow> parked (run evs s)"
  by (induction evs arbitrary: s) (auto simp: step_parked)

lemma render_limit:
  "str_includes msg ''Daily mock limit'' \<Longrightarrow> quiet s \<Longrightarrow>
   screen (render (Inl msg) s) = Upgrade_prompt \<and> parked (render (Inl msg) s)"
  using quiet_clearAutoAdvance [of "s\<lparr>currentPartIndex := 0, currentIndex := 0, responses := [],
    state := idle, showTranscription := True, selectedVoice := None, mood := ''normal'',
    recordingStartTime := None, debateSide := None, test := None\<rparr>"]
  by (simp add: render_def parked_def quiet_set_screen Let_def)
    (simp add: quiet_def set_screen_def clearAutoAdvance_def split: option.splits)

text \<open>
  From a home page on which nothing is scheduled, a start call that fails with a message
  that includes \<open>Daily mock limit\<close> leaves the page parked: whatever happens until the
  mock test is opened again, no test is loaded and the screen is the upgrade prompt or,
  once the user has left, the home page. Any other message gives the error screen.
\<close>

lemma limit_prompt_when_quiet:
  assumes "str_includes msg ''Daily mock limit''" and "screen s = Home" and "quiet s"
    and "list_all (\<lambda>e. \<not> is_open e) evs"
  shows "screen (step (Open_mock_test (Inl msg)) s) = Upgrade_prompt \<and>
         parked (run evs (step (Open_mock_test (Inl msg)) s))"
  using render_limit [OF assms(1,3)] assms(2,4) by (simp add: run_parked)

lemma other_failure_error_screen:
  assumes "\<not> str_includes msg ''Daily mock limit''" and "screen s = Home"
  shows "screen (step (Open_mock_test (Inl msg)) s) = Error_screen msg \<and>
         Error_screen msg \<noteq> Upgrade_prompt"
  using assms by (simp add: render_def set_screen_def Let_def)

text \<open>
  C7. When the start call fails with a message that includes \<open>Daily mock limit\<close>, the
  page shows the upgrade prompt and no test is loaded. The prompt is not terminal when
  a submission of the run before is still in flight, which Back does not cancel: in
  \<open>state_L\<close>, once that request has settled and the countdown it starts has run out,
  the part transition screen replaces the prompt without any tap of the user. From
  there the user reaches the debate recording screen with its prompt and recorder; the
  answer recorded there is added to \<open>responses\<close>, after the entry of the stale
  submission, and the scoring call is sent.
\<close>

theorem limit_prompt_replaced_by_stale_submission:
  "screen state_L = Upgrade_prompt \<and> test state_L = None \<and> responses state_L = [] \<and>
   length (pending state_L) = 1 \<and>
   screen (step (Respond_settles 0 (Inr (utf16_of ''a one'', 6))) state_L) = Upgrade_prompt \<and>
   screen (run evs_stale state_L) = Part_transition \<and>
   screen (run (evs_stale @ evs_side) state_L) = Debate_recording \<and>
   responses (run (evs_stale @ evs_side @ evs_answer) state_L) =
     [\<lparr>part = Some ''1.1'', question = Some ''q1'', transcription = utf16_of ''a one'',
        duration = 6\<rparr>,
      \<lparr>part = Some ''3'', question = None, transcription = utf16_of ''i agree'',
        duration = 6\<rparr>] \<and>
   screen (run (evs_stale @ evs_side @ evs_answer) state_L) = Results_loading \<and>
   complete_inflight (run (evs_stale @ evs_side @ evs_answer) state_L) = 1"
  unfolding state_L_def state_F_def init_def evs_stale_def evs_side_def evs_answer_def
  by (simp add: page_defs test_A_def)

subsection \<open>The words-per-minute display\<close>

text \<open>
  The two roundings show: for 41 words in 40 seconds the quotient \<open>1.025\<close> is rounded
  down to a binary64 value, the product with 60 is rounded to the value just below
  \<open>61.5\<close>, and the page shows 61, where the exact quotient would give 62.
\<close>

lemma wpm_examples:
  "wpm 41 40 = Some 61" "wpm 49 24 = Some 122" "wpm 123 120 = Some 61"
  "wpm 2 40 = Some 3" "wpm 2 2 = Some 60"
  by (simp_all add: fl_eval)

lemma exact_examples:
  "Math_round (41 / 40 * 60) = 62" "Math_round (49 / 24 * 60) = 123"
  "Math_round (123 / 120 * 60) = 62"
  by (simp_all add: Math_round_def floor_divide_numeral_rat)

lemma words_examples:
  "words (utf16_of ''hello  world '') = 2" "words [] = 0"
  "words [104, 105, 12288, 8232, 121, 111, 117] = 2"
  by (simp_all add: words_def split_ws_def utf16_of_def is_ws_def)

lemma settles_success_display:
  assumes "i < length (pending s)" and "showTranscription s"
    and "p_gen (pending s ! i) = gen s"
  shows "transcriptionArea (handleRecording_settles i (Inr (t, d)) s) =
           T_transcript t (words t) (wpm (words t) d) d"
  using assms
  by (simp add: handleRecording_settles_def dom_write_def showNextWithAutoAdvance_def Let_def)

text \<open>
  C9. The words-per-minute value shown after a successful submission is 0 when the
  returned duration is zero (and whenever it is not positive): the division is
  guarded. For a positive duration \<open>d\<close> and \<open>w\<close> words it is
  \<open>Math.round((w / d) * 60)\<close> as the script evaluates it, the quotient rounded to a
  binary64 value, then the product rounded to a binary64 value, then \<open>Math.round\<close>;
  the divisor is not zero there. \<open>words\<close> is the number of non-empty
  whitespace-separated tokens of the transcript. These are the values written to the
  transcript card when transcription is shown.
\<close>

theorem wpm_display:
  "wpm w 0 = Some 0 \<and>
   wpm w d =
     (if 0 < d
      then (case fl (of_nat w / d) of
              None \<Rightarrow> None
            | Some q \<Rightarrow> map_option Math_round (fl (q * 60)))
      else Some 0) \<and>
   words t = token_starts True t \<and>
   (i < length (pending s) \<and> showTranscription s \<and> p_gen (pending s ! i) = gen s \<longrightarrow>
      transcriptionArea (handleRecording_settles i (Inr (t, d)) s) =
        T_transcript t (words t) (wpm (words t) d) d)"
  by (simp add: wpm_def fdiv_def fmul_def words_token_starts settles_success_display
      split: option.splits)

theorem wpm_display_witness:
  "(0 :: nat) < length (pending state_F) \<and> showTranscription state_F \<and>
   p_gen (pending state_F ! 0) = gen state_F \<and>
   wpm 41 0 = Some 0 \<and> wpm 41 40 = Some 61 \<and>
   words (utf16_of ''hello  world '') = 2 \<and>
   token_starts True (utf16_of ''hello  world '') = 2 \<and>
   transcriptionArea (step (Respond_settles 0 (Inr (utf16_of ''hello  world '', 40))) state_F) =
     T_transcript (utf16_of ''hello  world '') 2 (Some 3) 40"
proof -
  have f: "showTranscription state_F"
    unfolding state_F_def init_def by (simp add: page_defs test_A_def)
  note t = wpm_display [of 41 40 "utf16_of ''hello  world ''" 0 state_F]
  have w: "token_starts True (utf16_of ''hello  world '') = 2"
    using t words_examples(1) by simp
  have d: "transcriptionArea (handleRecording_settles 0 (Inr (utf16_of ''hello  world '', 40))
             state_F) = T_transcript (utf16_of ''hello  world '') 2 (Some 3) 40"
    using t f words_examples(1) wpm_examples(4) by (simp add: state_F_facts)
  show ?thesis
    using t f w d wpm_examples(1) words_examples(1) by (simp add: state_F_facts)
qed

end
